theory Spec2Isabelle
  imports Complex_Main "HOL-Library.Char_ord" "HOL-Library.List_Lexorder" "HOL-Library.Multiset"
begin

section \<open>Relation and node encoding\<close>

text \<open>
  The notebook keeps the triples in a data frame \<open>bios_graph_data\<close> with the columns
  \<open>agent_A\<close>, \<open>agent_B\<close> and \<open>stmt_type\<close>; a row is one triple. Labels are Python
  strings, compared by code point, which is the lexicographic order on \<open>char list\<close>.
\<close>

record row =
  agent_A :: string
  agent_B :: string
  stmt_type :: string

text \<open>
  \<open>Series.astype('category')\<close> (pandas): the categories of a column without missing
  values are its distinct values in sorted order, and \<open>.cat.codes\<close> gives every entry the
  position of its value in the categories.
\<close>

definition categories :: "'a::linorder list \<Rightarrow> 'a list" where
  "categories xs = sort (remdups xs)"

fun index_of :: "'a \<Rightarrow> 'a list \<Rightarrow> nat" where
  "index_of x [] = 0"
| "index_of x (y # ys) = (if x = y then 0 else Suc (index_of x ys))"

definition cat_codes :: "'a::linorder list \<Rightarrow> nat list" where
  "cat_codes xs = map (\<lambda>x. index_of x (categories xs)) xs"

text \<open>\<open>bios_graph_data['relation_category'] = bios_graph_data.stmt_type.astype('category').cat.codes\<close>\<close>

definition relation_category :: "row list \<Rightarrow> nat list" where
  "relation_category rows = cat_codes (map stmt_type rows)"

text \<open>\<open>edge_relation_lookup = dict(zip(codes, bios_graph_data['stmt_type']))\<close>:
  later pairs overwrite earlier ones with the same key.\<close>

definition edge_relation_lookup :: "row list \<Rightarrow> (nat \<rightharpoonup> string)" where
  "edge_relation_lookup rows =
     fold (\<lambda>(k, v) m. m(k \<mapsto> v)) (zip (relation_category rows) (map stmt_type rows)) Map.empty"



section \<open>Edge normalisation\<close>

datatype error = RuntimeError | ValueError | IndexError | ZeroDivisionError | KeyError | AttributeError

text \<open>
  \<open>g_w_data = nx.from_pandas_edgelist(bios_graph_data, source='agent_A', target='agent_B',
  ..., create_using=nx.DiGraph())\<close> (networkx): a simple directed graph. Every row adds its
  two endpoints as nodes, if new, and the arc from \<open>agent_A\<close> to \<open>agent_B\<close>; an arc that
  is already there is kept once (only its attribute is overwritten).
\<close>

record digraph =
  nodes :: "string list"
  arcs :: "(string \<times> string) list"

definition add_new :: "'a \<Rightarrow> 'a list \<Rightarrow> 'a list" where
  "add_new x xs = (if x \<in> set xs then xs else xs @ [x])"

definition add_edge :: "row \<Rightarrow> digraph \<Rightarrow> digraph" where
  "add_edge r g = \<lparr>nodes = add_new (agent_B r) (add_new (agent_A r) (nodes g)),
                   arcs = add_new (agent_A r, agent_B r) (arcs g)\<rparr>"

definition from_pandas_edgelist :: "row list \<Rightarrow> digraph" where
  "from_pandas_edgelist rows = fold add_edge rows \<lparr>nodes = [], arcs = []\<rparr>"

text \<open>
  \<open>G.degree()\<close> of a \<open>DiGraph\<close> is the in-degree plus the out-degree (a self-loop counts
  in both). \<open>nx.degree_centrality(G)\<close> is
  \<^verbatim>\<open>
    if len(G) <= 1: return {n: 1 for n in G}
    s = 1.0 / (len(G) - 1.0)
    centrality = {n: d * s for n, d in G.degree()}
  \<close>
  Floating-point numbers are modelled as reals throughout.
\<close>

definition out_degree :: "digraph \<Rightarrow> string \<Rightarrow> nat" where
  "out_degree g v = length (filter (\<lambda>(a, b). a = v) (arcs g))"

definition in_degree :: "digraph \<Rightarrow> string \<Rightarrow> nat" where
  "in_degree g v = length (filter (\<lambda>(a, b). b = v) (arcs g))"

definition degree :: "digraph \<Rightarrow> string \<Rightarrow> nat" where
  "degree g v = in_degree g v + out_degree g v"

definition degree_centrality :: "digraph \<Rightarrow> (string \<rightharpoonup> real)" where
  "degree_centrality g =
     (if length (nodes g) \<le> 1 then map_of (map (\<lambda>n. (n, 1)) (nodes g))
      else let s = 1 / (real (length (nodes g)) - 1)
           in map_of (map (\<lambda>n. (n, real (degree g n) * s)) (nodes g)))"

definition dict1 :: "row list \<Rightarrow> (string \<rightharpoonup> real)" where
  "dict1 rows = degree_centrality (from_pandas_edgelist rows)"

text \<open>
  \<open>bios_graph_data['edge_norm'] =
     bios_graph_data.apply(lambda x: np.sqrt(dict1[x.agent_A]*dict1[x.agent_B]), axis=1)\<close>.
  A dictionary lookup of a missing key raises \<open>KeyError\<close>.
\<close>

definition lookup :: "('k \<rightharpoonup> 'v) \<Rightarrow> 'k \<Rightarrow> error + 'v" where
  "lookup m k = (case m k of None \<Rightarrow> Inl KeyError | Some v \<Rightarrow> Inr v)"

definition norm_of :: "(string \<rightharpoonup> real) \<Rightarrow> string \<Rightarrow> string \<Rightarrow> error + real" where
  "norm_of d a b =
     (case lookup d a of Inl e \<Rightarrow> Inl e | Inr ca \<Rightarrow>
     (case lookup d b of Inl e \<Rightarrow> Inl e | Inr cb \<Rightarrow> Inr (sqrt (ca * cb))))"

fun mapM :: "('a \<Rightarrow> error + 'b) \<Rightarrow> 'a list \<Rightarrow> error + 'b list" where
  "mapM f [] = Inr []"
| "mapM f (x # xs) =
     (case f x of Inl e \<Rightarrow> Inl e | Inr y \<Rightarrow>
     (case mapM f xs of Inl e \<Rightarrow> Inl e | Inr ys \<Rightarrow> Inr (y # ys)))"

definition edge_norm :: "row list \<Rightarrow> error + real list" where
  "edge_norm rows = mapM (\<lambda>x. norm_of (dict1 rows) (agent_A x) (agent_B x)) rows"

section \<open>Tensors\<close>

text \<open>
  A contiguous tensor: its shape and its elements in row-major order. The operations below
  are those of the tensor library that the layer calls, each with the failures it raises.
\<close>

record tensor =
  shape :: "nat list"
  data :: "real list"

text \<open>\<open>torch.Tensor(d1, ..., dk)\<close> allocates an uninitialised tensor (its content is whatever
  the memory holds, here \<open>junk\<close>); a negative size is a \<open>RuntimeError\<close>.\<close>

definition torch_Tensor :: "(nat \<Rightarrow> real) \<Rightarrow> int list \<Rightarrow> error + tensor" where
  "torch_Tensor junk dims =
     (if \<exists>d \<in> set dims. d < 0 then Inl RuntimeError
      else Inr \<lparr>shape = map nat dims, data = map junk [0..<prod_list (map nat dims)]\<rparr>)"

text \<open>\<open>t.view(dims)\<close> reinterprets the same elements under a new shape; one size may be
  \<open>-1\<close> and is then inferred. The number of elements must fit.\<close>

definition view :: "tensor \<Rightarrow> int list \<Rightarrow> error + tensor" where
  "view t dims =
     (let n = length (data t);
          known = filter (\<lambda>d. d \<noteq> - 1) dims;
          p = prod_list (map nat known)
      in if (\<exists>d \<in> set dims. d < - 1) \<or> length known + 1 < length dims then Inl RuntimeError
         else if length known = length dims
           then (if p = n then Inr \<lparr>shape = map nat dims, data = data t\<rparr> else Inl RuntimeError)
         else if p = 0 \<or> n mod p \<noteq> 0 then Inl RuntimeError
         else Inr \<lparr>shape = map (\<lambda>d. if d = - 1 then n div p else nat d) dims, data = data t\<rparr>)"

definition at2 :: "tensor \<Rightarrow> nat \<Rightarrow> nat \<Rightarrow> real" where
  "at2 t i j = data t ! (i * (shape t ! 1) + j)"

definition at3 :: "tensor \<Rightarrow> nat \<Rightarrow> nat \<Rightarrow> nat \<Rightarrow> real" where
  "at3 t i j k = data t ! ((i * (shape t ! 1) + j) * (shape t ! 2) + k)"

text \<open>\<open>torch.matmul(a, b)\<close> for a matrix \<open>a\<close> of shape \<open>(r, k)\<close> and a batch \<open>b\<close> of shape
  \<open>(n, k, m)\<close>, the only case the layer uses: \<open>a\<close> is broadcast over the batch and the result
  has shape \<open>(n, r, m)\<close>.\<close>

definition matmul :: "tensor \<Rightarrow> tensor \<Rightarrow> error + tensor" where
  "matmul a b =
     (case (shape a, shape b) of
        ([r, k], [n, k', m]) \<Rightarrow>
          if k = k'
          then Inr \<lparr>shape = [n, r, m],
                    data = concat (map (\<lambda>i. concat (map (\<lambda>j. map (\<lambda>c.
                             sum_list (map (\<lambda>x. at2 a j x * at3 b i x c) [0..<k]))
                             [0..<m]) [0..<r])) [0..<n])\<rparr>
          else Inl RuntimeError
      | _ \<Rightarrow> Inl RuntimeError)"




text \<open>
  \<open>nn.init.xavier_uniform_(t, gain)\<close> overwrites \<open>t\<close> with random draws, here the next
  elements of the stream \<open>rng\<close> from position \<open>pos\<close>. It computes
  \<^verbatim>\<open>
    fan_in  = t.size(1) * (product of t.shape[2:])
    fan_out = t.size(0) * (product of t.shape[2:])
    std = gain * math.sqrt(2.0 / float(fan_in + fan_out))
  \<close>
  which is a \<open>ValueError\<close> for a tensor of fewer than two dimensions and a
  \<open>ZeroDivisionError\<close> when both fans are zero.
\<close>

definition calculate_fan_in_and_fan_out :: "tensor \<Rightarrow> error + nat \<times> nat" where
  "calculate_fan_in_and_fan_out t =
     (if length (shape t) < 2 then Inl ValueError
      else let receptive_field_size = prod_list (drop 2 (shape t))
           in Inr (shape t ! 1 * receptive_field_size, shape t ! 0 * receptive_field_size))"

definition xavier_uniform :: "(nat \<Rightarrow> real) \<Rightarrow> nat \<Rightarrow> tensor \<Rightarrow> error + tensor \<times> nat" where
  "xavier_uniform rng pos t =
     (case calculate_fan_in_and_fan_out t of
        Inl e \<Rightarrow> Inl e
      | Inr (fan_in, fan_out) \<Rightarrow>
          if fan_in + fan_out = 0 then Inl ZeroDivisionError
          else Inr (t\<lparr>data := map (\<lambda>k. rng (pos + k)) [0..<length (data t)]\<rparr>,
                    pos + length (data t)))"

section \<open>The relational graph convolution layer\<close>

text \<open>
  The attribute \<open>self.bias\<close> holds what the caller passed (\<open>None\<close> or a Boolean) until
  the constructor replaces it by a parameter vector. \<open>if self.bias:\<close> takes its truth
  value; that of a tensor is defined only for a tensor of exactly one element and is a
  \<open>RuntimeError\<close> otherwise.
\<close>

datatype bias_val = BNone | BFlag bool | BParam tensor

fun truth :: "bias_val \<Rightarrow> error + bool" where
  "truth BNone = Inr False"
| "truth (BFlag b) = Inr b"
| "truth (BParam t) = (if length (data t) = 1 then Inr (data t ! 0 \<noteq> 0) else Inl RuntimeError)"

record layer =
  in_feat :: int
  out_feat :: int
  num_rels :: int
  num_bases :: int
  bias :: bias_val
  activation :: "(real list \<Rightarrow> real list) option"
  is_input_layer :: bool
  weight :: tensor
  w_comp :: "tensor option"

text \<open>
  \<open>RGCNLayer.__init__\<close>. The attribute \<open>w_comp\<close> exists only when
  \<open>num_bases < num_rels\<close>. The gain passed to the initialiser only scales the range of
  the random draws.
\<close>

definition RGCNLayer_init ::
  "(nat \<Rightarrow> real) \<Rightarrow> (nat \<Rightarrow> real) \<Rightarrow> int \<Rightarrow> int \<Rightarrow> int \<Rightarrow> int \<Rightarrow> bias_val \<Rightarrow>
   (real list \<Rightarrow> real list) option \<Rightarrow> bool \<Rightarrow> error + layer" where
  "RGCNLayer_init rng junk in_feat0 out_feat0 num_rels0 num_bases0 bias0 activation0 is_input_layer0 =
     (let nb = (if num_bases0 \<le> 0 \<or> num_bases0 > num_rels0 then num_rels0 else num_bases0)
      in case torch_Tensor junk [nb, in_feat0, out_feat0] of Inl e \<Rightarrow> Inl e | Inr w0 \<Rightarrow>
        (case (if nb < num_rels0 then map_sum id Some (torch_Tensor junk [num_rels0, nb])
               else Inr None) of Inl e \<Rightarrow> Inl e | Inr wc0 \<Rightarrow>
        (case truth bias0 of Inl e \<Rightarrow> Inl e | Inr b1 \<Rightarrow>
        (case (if b1 then map_sum id BParam (torch_Tensor junk [out_feat0])
               else Inr bias0) of Inl e \<Rightarrow> Inl e | Inr bias1 \<Rightarrow>
        (case xavier_uniform rng 0 w0 of Inl e \<Rightarrow> Inl e | Inr (w1, p1) \<Rightarrow>
        (case (if nb < num_rels0
               then (case wc0 of None \<Rightarrow> Inl AttributeError
                     | Some c \<Rightarrow> map_sum id (\<lambda>(c1, p). (Some c1, p)) (xavier_uniform rng p1 c))
               else Inr (wc0, p1)) of Inl e \<Rightarrow> Inl e | Inr (wc1, p2) \<Rightarrow>
        (case truth bias1 of Inl e \<Rightarrow> Inl e | Inr b2 \<Rightarrow>
        (case (if b2
               then (case bias1 of BParam t \<Rightarrow> map_sum id (\<lambda>(t1, p). BParam t1) (xavier_uniform rng p2 t)
                     | _ \<Rightarrow> Inl AttributeError)
               else Inr bias1) of Inl e \<Rightarrow> Inl e | Inr bias2 \<Rightarrow>
         Inr \<lparr>in_feat = in_feat0, out_feat = out_feat0, num_rels = num_rels0, num_bases = nb,
              bias = bias2, activation = activation0, is_input_layer = is_input_layer0,
              weight = w1, w_comp = wc1\<rparr>))))))))"

text \<open>
  The first lines of \<open>RGCNLayer.forward\<close>: the weight tensor that the message functions
  use,
  \<^verbatim>\<open>
    if self.num_bases < self.num_rels:
        weight = self.weight.view(self.in_feat, self.num_bases, self.out_feat)
        weight = torch.matmul(self.w_comp, weight).view(self.num_rels,
                                                    self.in_feat, self.out_feat)
    else:
        weight = self.weight
  \<close>
\<close>

definition forward_weight :: "layer \<Rightarrow> error + tensor" where
  "forward_weight l =
     (if num_bases l < num_rels l
      then (case view (weight l) [in_feat l, num_bases l, out_feat l] of Inl e \<Rightarrow> Inl e | Inr wv \<Rightarrow>
           (case w_comp l of None \<Rightarrow> Inl AttributeError | Some c \<Rightarrow>
           (case matmul c wv of Inl e \<Rightarrow> Inl e | Inr m \<Rightarrow>
              view m [num_rels l, in_feat l, out_feat l])))
      else Inr (weight l))"







text \<open>\<open>apply_func\<close>, for one node. Adding the bias broadcasts a one-element vector.\<close>

definition add_bias :: "real list \<Rightarrow> bias_val \<Rightarrow> error + real list" where
  "add_bias h b =
     (case b of
        BNone \<Rightarrow> Inl RuntimeError
      | BFlag f \<Rightarrow> Inr (map (\<lambda>x. x + (if f then 1 else 0)) h)
      | BParam t \<Rightarrow>
          if length (data t) = length h then Inr (map2 (+) h (data t))
          else if length (data t) = 1 then Inr (map (\<lambda>x. x + data t ! 0) h)
          else if length h = 1 then Inr (map (\<lambda>y. h ! 0 + y) (data t))
          else Inl RuntimeError)"

definition apply_func :: "layer \<Rightarrow> real list \<Rightarrow> error + real list" where
  "apply_func l h =
     (case truth (bias l) of Inl e \<Rightarrow> Inl e | Inr b \<Rightarrow>
     (case (if b then add_bias h (bias l) else Inr h) of Inl e \<Rightarrow> Inl e | Inr h1 \<Rightarrow>
        Inr (case activation l of None \<Rightarrow> h1 | Some f \<Rightarrow> f h1)))"





section \<open>Reference notions\<close>

text \<open>Equation (3) as the specification reads it: entry \<open>(i, o)\<close> of the weight of relation \<open>r\<close> is
  the sum over the bases \<open>b\<close> of \<open>coeff[r][b] * Basis_b[i][o]\<close>.\<close>

definition basis_combination :: "layer \<Rightarrow> nat \<Rightarrow> nat \<Rightarrow> nat \<Rightarrow> real" where
  "basis_combination l r i c =
     (case w_comp l of None \<Rightarrow> 0
      | Some coeff \<Rightarrow> sum_list (map (\<lambda>b. at2 coeff r b * at3 (weight l) b i c) [0..<nat (num_bases l)]))"



section \<open>Example inputs\<close>

definition labels_ex :: "row list" where
  "labels_ex =
     [\<lparr>agent_A = ''HGNC:12873'', agent_B = ''HGNC:11715'', stmt_type = ''Complex''\<rparr>,
      \<lparr>agent_A = ''HGNC:6843'', agent_B = ''HGNC:2631'', stmt_type = ''Activation''\<rparr>,
      \<lparr>agent_A = ''HGNC:12731'', agent_B = ''HGNC:19297'', stmt_type = ''Complex''\<rparr>]"


definition abc_ex :: "row list" where
  "abc_ex =
     [\<lparr>agent_A = ''A'', agent_B = ''B'', stmt_type = ''Complex''\<rparr>,
      \<lparr>agent_A = ''B'', agent_B = ''A'', stmt_type = ''Complex''\<rparr>,
      \<lparr>agent_A = ''B'', agent_B = ''C'', stmt_type = ''Activation''\<rparr>]"

definition swap_rng :: "nat \<Rightarrow> real" where
  "swap_rng k = [1, 0, 1, - 1] ! k"

definition zero_mem :: "nat \<Rightarrow> real" where
  "zero_mem k = 0"

definition swap_layer :: layer where
  "swap_layer =
     \<lparr>in_feat = 2, out_feat = 1, num_rels = 2, num_bases = 1, bias = BNone, activation = None,
      is_input_layer = False,
      weight = \<lparr>shape = [1, 2, 1], data = [1, 0]\<rparr>,
      w_comp = Some \<lparr>shape = [2, 1], data = [1, - 1]\<rparr>\<rparr>"

definition one_mem :: "nat \<Rightarrow> real" where
  "one_mem k = 1"

definition full_rng :: "nat \<Rightarrow> real" where
  "full_rng k = [1, 0, 0, 1, 1, - 1, 2, 1] ! k"

definition full_layer :: layer where
  "full_layer =
     \<lparr>in_feat = 2, out_feat = 2, num_rels = 2, num_bases = 2, bias = BNone, activation = None,
      is_input_layer = True,
      weight = \<lparr>shape = [2, 2, 2], data = [1, 0, 0, 1, 1, - 1, 2, 1]\<rparr>,
      w_comp = None\<rparr>"



definition biased_layer :: layer where
  "biased_layer =
     \<lparr>in_feat = 2, out_feat = 2, num_rels = 1, num_bases = 1,
      bias = BParam \<lparr>shape = [2], data = [1, 1]\<rparr>, activation = None,
      is_input_layer = False, weight = \<lparr>shape = [1, 2, 2], data = [1, 0, 1, - 1]\<rparr>,
      w_comp = None\<rparr>"




section \<open>Properties of the encoders\<close>

lemma index_of_rank:
  "sorted ys \<Longrightarrow> distinct ys \<Longrightarrow> x \<in> set ys \<Longrightarrow> index_of x ys = card {y \<in> set ys. y < x}"
proof (induction ys)
  case Nil
  then show ?case by simp
next
  case (Cons a ys)
  show ?case
  proof (cases "x = a")
    case True
    with Cons.prems have "{y \<in> set (a # ys). y < x} = {}" by auto
    with True show ?thesis by simp
  next
    case False
    with Cons.prems have xin: "x \<in> set ys" and ax: "a < x" by auto
    have "{y \<in> set (a # ys). y < x} = insert a {y \<in> set ys. y < x}" using ax by auto
    moreover have "a \<notin> {y \<in> set ys. y < x}" using Cons.prems by auto
    ultimately have "card {y \<in> set (a # ys). y < x} = Suc (card {y \<in> set ys. y < x})" by simp
    with False Cons xin show ?thesis by simp
  qed
qed


lemma cat_codes_rank:
  assumes "i < length xs"
  shows "cat_codes xs ! i = card {y \<in> set xs. y < xs ! i}"
proof -
  have "index_of (xs ! i) (categories xs) = card {y \<in> set (categories xs). y < xs ! i}"
    using assms by (intro index_of_rank) (simp_all add: categories_def)
  then show ?thesis using assms by (simp add: cat_codes_def categories_def)
qed

lemma rank_less_iff:
  fixes x y :: "'a::linorder"
  assumes "finite S" "x \<in> S" "y \<in> S"
  shows "card {z \<in> S. z < x} < card {z \<in> S. z < y} \<longleftrightarrow> x < y"
proof
  assume "x < y"
  then have "{z \<in> S. z < x} \<subset> {z \<in> S. z < y}" using assms by auto
  then show "card {z \<in> S. z < x} < card {z \<in> S. z < y}"
    using assms by (intro psubset_card_mono) auto
next
  assume lt: "card {z \<in> S. z < x} < card {z \<in> S. z < y}"
  show "x < y"
  proof (rule ccontr)
    assume "\<not> x < y"
    then have "{z \<in> S. z < y} \<subseteq> {z \<in> S. z < x}" by auto
    then have "card {z \<in> S. z < y} \<le> card {z \<in> S. z < x}"
      using assms by (intro card_mono) auto
    with lt show False by simp
  qed
qed

lemma cat_codes_less_iff:
  assumes "i < length xs" "j < length xs"
  shows "cat_codes xs ! i < cat_codes xs ! j \<longleftrightarrow> xs ! i < xs ! j"
  using assms by (simp add: cat_codes_rank rank_less_iff)


text \<open>
  C4, as stated: relation ids follow the first appearance of the labels, so that the label
  column Complex, Activation, Complex gives Complex the id 0 and Activation the id 1. The
  encoder gives Complex the id 1 and Activation the id 0.
\<close>

theorem relation_category_first_appearance_counterexample:
  "relation_category labels_ex = [1, 0, 1] \<and>
   relation_category labels_ex \<noteq> [0, 1, 0] \<and>
   edge_relation_lookup labels_ex 0 = Some ''Activation'' \<and>
   edge_relation_lookup labels_ex 1 = Some ''Complex''"
  by (simp add: labels_ex_def relation_category_def edge_relation_lookup_def cat_codes_def
      categories_def)

text \<open>
  C4, amended: relation ids follow the sorted order of the distinct relation labels. The id
  of a triple's label is the number of distinct labels of the column that are smaller, and
  the ids of two triples are ordered as their labels are.
\<close>

theorem relation_category_sorted_rank:
  "(\<forall>i < length rows.
      relation_category rows ! i
        = card {l \<in> set (map stmt_type rows). l < stmt_type (rows ! i)}) \<and>
   (\<forall>i < length rows. \<forall>j < length rows.
      relation_category rows ! i < relation_category rows ! j
        \<longleftrightarrow> stmt_type (rows ! i) < stmt_type (rows ! j))"
proof (intro conjI allI impI)
  fix i assume "i < length rows"
  then show "relation_category rows ! i
      = card {l \<in> set (map stmt_type rows). l < stmt_type (rows ! i)}"
    using cat_codes_rank [of i "map stmt_type rows"] by (simp add: relation_category_def)
next
  fix i j assume "i < length rows" "j < length rows"
  then show "relation_category rows ! i < relation_category rows ! j
      \<longleftrightarrow> stmt_type (rows ! i) < stmt_type (rows ! j)"
    using cat_codes_less_iff [of i "map stmt_type rows" j] by (simp add: relation_category_def)
qed

theorem relation_category_sorted_rank_witness:
  "relation_category labels_ex ! 1 < relation_category labels_ex ! 0 \<and>
   stmt_type (labels_ex ! 1) = ''Activation'' \<and> stmt_type (labels_ex ! 0) = ''Complex''"
proof -
  have len: "(1::nat) < length labels_ex" "(0::nat) < length labels_ex"
    by (simp_all add: labels_ex_def)
  have "stmt_type (labels_ex ! 1) < stmt_type (labels_ex ! 0)"
    by (simp add: labels_ex_def)
  with len relation_category_sorted_rank [of labels_ex]
  have "relation_category labels_ex ! 1 < relation_category labels_ex ! 0" by blast
  then show ?thesis by (simp add: labels_ex_def)
qed




section \<open>Properties of the edge normalisation\<close>

lemma abc_graph:
  "from_pandas_edgelist abc_ex =
     \<lparr>nodes = [''A'', ''B'', ''C''], arcs = [(''A'', ''B''), (''B'', ''A''), (''B'', ''C'')]\<rparr>"
  by (simp add: abc_ex_def from_pandas_edgelist_def add_edge_def add_new_def)

lemma abc_dict1:
  "dict1 abc_ex ''A'' = Some 1" "dict1 abc_ex ''B'' = Some (3 / 2)"
  "dict1 abc_ex ''C'' = Some (1 / 2)"
  by (simp_all add: dict1_def abc_graph degree_centrality_def degree_def in_degree_def
      out_degree_def)

lemma abc_edge_norm:
  "edge_norm abc_ex = Inr [sqrt (1 * (3 / 2)), sqrt (3 / 2 * 1), sqrt (3 / 2 * (1 / 2))]"
  using abc_dict1 by (simp add: edge_norm_def norm_of_def lookup_def abc_ex_def)

text \<open>
  C6, as stated: for the triples A \<rightarrow> B, B \<rightarrow> A, B \<rightarrow> C the centralities are 1/2, 1 and 0 and
  the norms are \<open>sqrt (0.5 * 1)\<close>, the same, and 0. The centrality routine counts the arcs in
  both directions, and none of these values is what the notebook computes.
\<close>

theorem abc_centrality_counterexample:
  "dict1 abc_ex ''A'' \<noteq> Some (1 / 2) \<and> dict1 abc_ex ''B'' \<noteq> Some 1 \<and>
   dict1 abc_ex ''C'' \<noteq> Some 0 \<and>
   edge_norm abc_ex \<noteq> Inr [sqrt (0.5 * 1), sqrt (1 * 0.5), sqrt (1 * 0)]"
  using abc_dict1 abc_edge_norm by simp

text \<open>
  C6, amended: for the triples A \<rightarrow> B, B \<rightarrow> A, B \<rightarrow> C the centralities are
  (in-degree + out-degree) / (N - 1), that is 1 for A, 3/2 for B and 1/2 for C, and the norms
  are \<open>sqrt (centrality(src) * centrality(dst))\<close>: \<open>sqrt (1 * 3/2)\<close> for A \<rightarrow> B and for
  B \<rightarrow> A, and \<open>sqrt (3/2 * 1/2)\<close> for B \<rightarrow> C.
\<close>

theorem abc_centrality_and_norms:
  "dict1 abc_ex ''A'' = Some 1 \<and> dict1 abc_ex ''B'' = Some (3 / 2) \<and>
   dict1 abc_ex ''C'' = Some (1 / 2) \<and>
   edge_norm abc_ex = Inr [sqrt (1 * (3 / 2)), sqrt (3 / 2 * 1), sqrt (3 / 2 * (1 / 2))]"
  using abc_dict1 abc_edge_norm by simp

lemma nodes_fold_add_edge:
  "set (nodes (fold add_edge rows g)) = set (nodes g) \<union> agent_A ` set rows \<union> agent_B ` set rows"
  by (induction rows arbitrary: g) (auto simp: add_edge_def add_new_def)

lemma nodes_from_pandas_edgelist:
  "set (nodes (from_pandas_edgelist rows)) = agent_A ` set rows \<union> agent_B ` set rows"
  by (simp add: from_pandas_edgelist_def nodes_fold_add_edge)

lemma map_of_const_some: "x \<in> set xs \<Longrightarrow> \<exists>c. map_of (map (\<lambda>n. (n, f n)) xs) x = Some c"
  by (induction xs) auto

lemma degree_centrality_dom: "v \<in> set (nodes g) \<Longrightarrow> \<exists>c. degree_centrality g v = Some c"
  unfolding degree_centrality_def Let_def
  by (auto intro: map_of_const_some)

text \<open>
  C10: for two labels X and Y that occur in the input, the norm of a triple from X to Y is
  the norm of a triple from Y to X: both are the square root of the product of the two
  centralities.
\<close>

theorem edge_norm_symmetric:
  assumes "X \<in> agent_A ` set rows \<union> agent_B ` set rows"
    and "Y \<in> agent_A ` set rows \<union> agent_B ` set rows"
  shows "\<exists>cx cy. dict1 rows X = Some cx \<and> dict1 rows Y = Some cy \<and>
           norm_of (dict1 rows) X Y = Inr (sqrt (cx * cy)) \<and>
           norm_of (dict1 rows) Y X = Inr (sqrt (cx * cy))"
proof -
  from assms obtain cx cy where "dict1 rows X = Some cx" "dict1 rows Y = Some cy"
    unfolding dict1_def nodes_from_pandas_edgelist [symmetric]
    using degree_centrality_dom by blast
  then show ?thesis by (simp add: norm_of_def lookup_def mult.commute)
qed

theorem edge_norm_symmetric_witness:
  "''A'' \<in> agent_A ` set abc_ex \<union> agent_B ` set abc_ex \<and>
   ''B'' \<in> agent_A ` set abc_ex \<union> agent_B ` set abc_ex \<and>
   norm_of (dict1 abc_ex) ''A'' ''B'' = norm_of (dict1 abc_ex) ''B'' ''A'' \<and>
   norm_of (dict1 abc_ex) ''A'' ''B'' = Inr (sqrt (3 / 2))"
proof -
  have a: "''A'' \<in> agent_A ` set abc_ex \<union> agent_B ` set abc_ex"
    and b: "''B'' \<in> agent_A ` set abc_ex \<union> agent_B ` set abc_ex"
    by (simp_all add: abc_ex_def)
  have "norm_of (dict1 abc_ex) ''A'' ''B'' = Inr (sqrt (3 / 2))"
    using abc_dict1 by (simp add: norm_of_def lookup_def)
  with a b edge_norm_symmetric [OF a b] show ?thesis by auto
qed

section \<open>Properties of the layer\<close>

subsection \<open>Construction\<close>

lemma torch_Tensor_Inr:
  assumes "torch_Tensor junk dims = Inr t"
  shows "(\<forall>x \<in> set dims. 0 \<le> x) \<and> shape t = map nat dims \<and>
         length (data t) = prod_list (map nat dims)"
  using assms by (auto simp: torch_Tensor_def split: if_splits)

lemma xavier_uniform_Inr:
  assumes "xavier_uniform rng p t = Inr (t', p')"
  shows "shape t' = shape t \<and> length (data t') = length (data t) \<and> 2 \<le> length (shape t) \<and>
         0 < shape t ! 1 * prod_list (drop 2 (shape t)) + shape t ! 0 * prod_list (drop 2 (shape t))"
  using assms
  by (auto simp: xavier_uniform_def calculate_fan_in_and_fan_out_def Let_def split: if_splits)


lemma init_steps:
  assumes "RGCNLayer_init rng junk i d r nb b act inp = Inr l"
  obtains w0 wc0 b1 bias1 w1 p1 wc1 p2 b2 bias2 n where
    "n = (if nb \<le> 0 \<or> nb > r then r else nb)"
    "torch_Tensor junk [n, i, d] = Inr w0"
    "(if n < r then map_sum id Some (torch_Tensor junk [r, n]) else Inr None) = Inr wc0"
    "truth b = Inr b1"
    "(if b1 then map_sum id BParam (torch_Tensor junk [d]) else Inr b) = Inr bias1"
    "xavier_uniform rng 0 w0 = Inr (w1, p1)"
    "(if n < r
      then (case wc0 of None \<Rightarrow> Inl AttributeError
            | Some c \<Rightarrow> map_sum id (\<lambda>(c1, p). (Some c1, p)) (xavier_uniform rng p1 c))
      else Inr (wc0, p1)) = Inr (wc1, p2)"
    "truth bias1 = Inr b2"
    "(if b2
      then (case bias1 of BParam t \<Rightarrow> map_sum id (\<lambda>(t1, p). BParam t1) (xavier_uniform rng p2 t)
            | _ \<Rightarrow> Inl AttributeError)
      else Inr bias1) = Inr bias2"
    "l = \<lparr>in_feat = i, out_feat = d, num_rels = r, num_bases = n,
          bias = bias2, activation = act, is_input_layer = inp, weight = w1, w_comp = wc1\<rparr>"
  using assms unfolding RGCNLayer_init_def Let_def
  by (simp split: sum.split_asm prod.split_asm)

lemma init_fields:
  assumes "RGCNLayer_init rng junk i d r nb b act inp = Inr l"
  shows "in_feat l = i \<and> out_feat l = d \<and> num_rels l = r \<and>
         num_bases l = (if nb \<le> 0 \<or> nb > r then r else nb) \<and>
         activation l = act \<and> is_input_layer l = inp"
  using assms by (elim init_steps) simp

lemma init_weight:
  assumes "RGCNLayer_init rng junk i d r nb b act inp = Inr l"
  shows "0 \<le> num_bases l \<and> 0 \<le> i \<and> 0 < d \<and> (0 < num_bases l \<or> 0 < i) \<and>
         shape (weight l) = [nat (num_bases l), nat i, nat d] \<and>
         length (data (weight l)) = nat (num_bases l) * nat i * nat d"
proof (rule init_steps [OF assms])
  fix w0 wc0 b1 bias1 w1 p1 wc1 p2 b2 bias2 n
  assume alloc: "torch_Tensor junk [n, i, d] = Inr w0"
    and init: "xavier_uniform rng 0 w0 = Inr (w1, p1)"
    and l: "l = \<lparr>in_feat = i, out_feat = d, num_rels = r, num_bases = n,
          bias = bias2, activation = act, is_input_layer = inp, weight = w1, w_comp = wc1\<rparr>"
  from torch_Tensor_Inr [OF alloc]
  have nonneg: "0 \<le> n" "0 \<le> i" "0 \<le> d" and sh0: "shape w0 = [nat n, nat i, nat d]"
    and len0: "length (data w0) = nat n * nat i * nat d" by simp_all
  from xavier_uniform_Inr [OF init] sh0 len0
  have sh1: "shape w1 = [nat n, nat i, nat d]" and len1: "length (data w1) = nat n * nat i * nat d"
    and fan: "0 < nat i * nat d + nat n * nat d" by simp_all
  from fan nonneg have "0 < d" "0 < n \<or> 0 < i"
    by (auto simp: zero_less_nat_eq intro: ccontr)
  with nonneg sh1 len1 l show ?thesis by simp
qed

lemma init_w_comp:
  assumes "RGCNLayer_init rng junk i d r nb b act inp = Inr l"
  shows "if num_bases l < num_rels l
         then (\<exists>c. w_comp l = Some c \<and> shape c = [nat (num_rels l), nat (num_bases l)] \<and>
                 length (data c) = nat (num_rels l) * nat (num_bases l))
         else w_comp l = None"
proof (rule init_steps [OF assms])
  fix w0 wc0 b1 bias1 w1 p1 wc1 p2 b2 bias2 n
  assume alloc: "(if n < r then map_sum id Some (torch_Tensor junk [r, n]) else Inr None) = Inr wc0"
    and init: "(if n < r
      then (case wc0 of None \<Rightarrow> Inl AttributeError
            | Some c \<Rightarrow> map_sum id (\<lambda>(c1, p). (Some c1, p)) (xavier_uniform rng p1 c))
      else Inr (wc0, p1)) = Inr (wc1, p2)"
    and l: "l = \<lparr>in_feat = i, out_feat = d, num_rels = r, num_bases = n,
          bias = bias2, activation = act, is_input_layer = inp, weight = w1, w_comp = wc1\<rparr>"
  show ?thesis
  proof (cases "n < r")
    case False
    with alloc init l show ?thesis by simp
  next
    case True
    with alloc obtain c0 where c0: "torch_Tensor junk [r, n] = Inr c0" "wc0 = Some c0"
      by (cases "torch_Tensor junk [r, n]") auto
    with True init obtain c1 where c1: "xavier_uniform rng p1 c0 = Inr (c1, p2)" "wc1 = Some c1"
      by (cases "xavier_uniform rng p1 c0") auto
    from torch_Tensor_Inr [OF c0(1)] xavier_uniform_Inr [OF c1(1)]
    have "shape c1 = [nat r, nat n]" "length (data c1) = nat r * nat n" by simp_all
    with True c1 l show ?thesis by simp
  qed
qed



lemma full_layer_init:
  "RGCNLayer_init full_rng zero_mem 2 2 2 (- 1) BNone None True = Inr full_layer"
  by (simp add: RGCNLayer_init_def torch_Tensor_def xavier_uniform_def
      calculate_fan_in_and_fan_out_def full_rng_def full_layer_def upt_conv_Cons)

lemma swap_layer_init:
  "RGCNLayer_init swap_rng zero_mem 2 1 2 1 BNone None False = Inr swap_layer"
  by (simp add: RGCNLayer_init_def torch_Tensor_def xavier_uniform_def
      calculate_fan_in_and_fan_out_def swap_rng_def swap_layer_def upt_conv_Cons)

text \<open>
  C8: when the constructor returns a layer for \<open>num_rels = R > 0\<close>, the stored number of
  bases lies in \<open>(0, R]\<close>; a configured value in that range is kept, and one outside it is
  replaced by \<open>R\<close>, in which case there is no coefficient matrix, the weight tensor holds
  one \<open>in_feat \<times> out_feat\<close> matrix for each relation, and the forward pass uses it as it is.
\<close>

theorem num_bases_clamped:
  assumes "RGCNLayer_init rng junk i d r nb b act inp = Inr l" and "0 < r"
  shows "0 < num_bases l \<and> num_bases l \<le> r \<and> num_rels l = r \<and>
         (0 < nb \<and> nb \<le> r \<longrightarrow> num_bases l = nb) \<and>
         (nb \<le> 0 \<or> r < nb \<longrightarrow>
            num_bases l = r \<and> w_comp l = None \<and>
            shape (weight l) = [nat r, nat i, nat d] \<and>
            length (data (weight l)) = nat r * nat i * nat d \<and>
            forward_weight l = Inr (weight l))"
proof -
  note f = init_fields [OF assms(1)] and w = init_weight [OF assms(1)]
    and c = init_w_comp [OF assms(1)]
  from f assms(2) have range: "0 < num_bases l" "num_bases l \<le> r" "num_rels l = r"
    by (auto split: if_splits)
  from f have keep: "0 < nb \<and> nb \<le> r \<longrightarrow> num_bases l = nb" by auto
  have clamp: "num_bases l = r \<and> w_comp l = None \<and>
            shape (weight l) = [nat r, nat i, nat d] \<and>
            length (data (weight l)) = nat r * nat i * nat d \<and>
            forward_weight l = Inr (weight l)" if "nb \<le> 0 \<or> r < nb"
  proof -
    from that f have nb: "num_bases l = r" by auto
    with c range have "w_comp l = None" by simp
    with nb w range show ?thesis by (simp add: forward_weight_def)
  qed
  from range keep clamp show ?thesis by blast
qed

theorem num_bases_clamped_witness:
  "(0::int) < 2 \<and> num_bases full_layer = 2 \<and> w_comp full_layer = None \<and>
   shape (weight full_layer) = [2, 2, 2] \<and> forward_weight full_layer = Inr (weight full_layer)"
proof -
  have "(0::int) < 2" by simp
  from num_bases_clamped [OF full_layer_init this] show ?thesis by simp
qed




text \<open>A constructor call with \<open>bias=True\<close> returns a layer only for one output feature
  whose fresh bias happens to hold zero; it stays zero and is never added.\<close>

lemma init_bias_degenerate:
  assumes "RGCNLayer_init rng junk i d r nb (BFlag True) act inp = Inr l"
  shows "d = 1 \<and> junk 0 = 0 \<and> bias l = BParam \<lparr>shape = [1], data = [0]\<rparr> \<and>
         apply_func l h = Inr (case act of None \<Rightarrow> h | Some f \<Rightarrow> f h)"
proof (rule init_steps [OF assms])
  fix w0 wc0 b1 bias1 w1 p1 wc1 p2 b2 bias2 n
  assume t1: "truth (BFlag True) = Inr b1"
    and alloc: "(if b1 then map_sum id BParam (torch_Tensor junk [d]) else Inr (BFlag True)) = Inr bias1"
    and t2: "truth bias1 = Inr b2"
    and init: "(if b2
      then (case bias1 of BParam t \<Rightarrow> map_sum id (\<lambda>(t1, p). BParam t1) (xavier_uniform rng p2 t)
            | _ \<Rightarrow> Inl AttributeError)
      else Inr bias1) = Inr bias2"
    and l: "l = \<lparr>in_feat = i, out_feat = d, num_rels = r, num_bases = n,
          bias = bias2, activation = act, is_input_layer = inp, weight = w1, w_comp = wc1\<rparr>"
  from t1 have "b1" by simp
  with alloc obtain t where t: "torch_Tensor junk [d] = Inr t" "bias1 = BParam t"
    by (cases "torch_Tensor junk [d]") auto
  from torch_Tensor_Inr [OF t(1)] have sh: "shape t = [nat d]" and d0: "0 \<le> d"
    and len: "length (data t) = nat d" by simp_all
  from t2 t have one: "length (data t) = 1" and b2: "b2 = (data t ! 0 \<noteq> 0)"
    by (auto split: if_splits)
  from one len d0 have d: "d = 1" by simp
  have "xavier_uniform rng p2 t = Inl ValueError"
    using sh by (simp add: xavier_uniform_def calculate_fan_in_and_fan_out_def)
  with init t have nb2: "\<not> b2" and bias2: "bias2 = BParam t" by (auto split: if_splits)
  from t(1) d have dt: "t = \<lparr>shape = [1], data = [junk 0]\<rparr>"
    by (simp add: torch_Tensor_def)
  with nb2 b2 have "junk 0 = 0" by simp
  with d dt bias2 l show ?thesis by (simp add: apply_func_def)
qed

text \<open>
  C9: a layer with a bias can be constructed and adds the bias vector to every node's sum.
  With \<open>bias=True\<close> and two output features the constructor stops at its second
  \<open>if self.bias:\<close>, the truth value of a two-element tensor; with one output feature and
  a non-zero content of the fresh vector it stops in the initialiser, which refuses a vector.
  A layer that holds a two-element bias vector fails in \<open>apply_func\<close> at the same test.
\<close>

theorem bias_layer_fails:
  "RGCNLayer_init rng junk 2 2 1 (- 1) (BFlag True) act False = Inl RuntimeError \<and>
   RGCNLayer_init rng one_mem 2 1 1 (- 1) (BFlag True) act False = Inl ValueError \<and>
   apply_func biased_layer [0, 0] = Inl RuntimeError"
  by (simp add: RGCNLayer_init_def torch_Tensor_def xavier_uniform_def
      calculate_fan_in_and_fan_out_def one_mem_def apply_func_def biased_layer_def)

subsection \<open>The weights of the forward pass\<close>

lemma swap_layer_weight:
  "forward_weight swap_layer = Inr \<lparr>shape = [2, 2, 1], data = [1, - 1, 0, 0]\<rparr>"
  by (simp add: forward_weight_def swap_layer_def view_def matmul_def at2_def at3_def upt_conv_Cons)

text \<open>
  C1: with fewer bases than relations the weight of relation \<open>r\<close> used by the forward pass
  is the combination of the bases with the coefficients of \<open>r\<close>. The layer with two
  relations, one basis \<open>[[1], [0]]\<close> and the coefficients 1 and -1 is what the constructor
  returns for these draws; the forward pass uses the weights \<open>[[1], [-1]]\<close> and
  \<open>[[0], [0]]\<close> where the combinations are \<open>[[1], [0]]\<close> and \<open>[[-1], [0]]\<close>: the two
  \<open>view\<close> calls reinterpret the elements in place and do not transpose.
\<close>

theorem basis_weights_scrambled:
  "RGCNLayer_init swap_rng zero_mem 2 1 2 1 BNone None False = Inr swap_layer \<and>
   forward_weight swap_layer = Inr \<lparr>shape = [2, 2, 1], data = [1, - 1, 0, 0]\<rparr> \<and>
   at3 \<lparr>shape = [2, 2, 1], data = [1, - 1, 0, 0]\<rparr> 0 1 0 = - 1 \<and>
   basis_combination swap_layer 0 1 0 = 0 \<and>
   at3 \<lparr>shape = [2, 2, 1], data = [1, - 1, 0, 0]\<rparr> 1 0 0 = 0 \<and>
   basis_combination swap_layer 1 0 0 = - 1"
  using swap_layer_init swap_layer_weight
  by (simp add: at3_def at2_def basis_combination_def swap_layer_def upt_conv_Cons)





subsection \<open>The messages of an input layer\<close>








subsection \<open>Aggregation\<close>












end
